theory Spec2Isabelle
  imports Complex_Main
begin

section \<open>Python values: errors and arrays\<close>

text \<open>
  The camera module of \<^verbatim>\<open>src/impreproc/camera.py\<close> works on numpy arrays. An
  exception is a value \<open>Inl e\<close> of the result type \<open>error + 'a\<close>. A failed
  \<^verbatim>\<open>assert\<close> raises \<open>AssertionError\<close>; this is the error the specification
  calls a ValidationError (the source defines no exception class of its own).
  A \<open>ValueError\<close> carries its message, since the calibration reader is
  specified by the text of its message.
\<close>

datatype error =
    AssertionError
  | ValueError string
  | IndexError
  | KeyError string
  | TypeError
  | LookupError
  | LinAlgError
  | OSError
  | AttributeError

datatype dtype = Float64 | Float32 | Int64

text \<open>
  An array is zero-, one- or two-dimensional. A two-dimensional array
  \<open>Arr2 dt m rows\<close> stores its number of columns \<open>m\<close> (so that the shape
  \<open>(0, m)\<close> is kept) and its rows. Entries are the real numbers the
  floating-point values denote, and arithmetic on them is exact, where numpy
  rounds every operation to float64. A value computed here is the program's
  value only where no operation rounds: the evaluations below multiply and
  add integers of moderate size. A bound on the rounding error of the
  program cannot be stated over this model.
\<close>

datatype ndarray =
    Arr0 dtype real
  | Arr1 dtype "real list"
  | Arr2 dtype nat "real list list"

fun wf_ndarray :: "ndarray \<Rightarrow> bool" where
  "wf_ndarray (Arr2 dt m rows) = list_all (\<lambda>r. length r = m) rows"
| "wf_ndarray _ = True"

fun shape :: "ndarray \<Rightarrow> nat list" where
  "shape (Arr0 dt x) = []"
| "shape (Arr1 dt xs) = [length xs]"
| "shape (Arr2 dt m rows) = [length rows, m]"

fun dtype_of :: "ndarray \<Rightarrow> dtype" where
  "dtype_of (Arr0 dt x) = dt"
| "dtype_of (Arr1 dt xs) = dt"
| "dtype_of (Arr2 dt m rows) = dt"

text \<open>The rows of a matrix; a vector is its own single row.\<close>

fun rows_of :: "ndarray \<Rightarrow> real list list" where
  "rows_of (Arr0 dt x) = [[x]]"
| "rows_of (Arr1 dt xs) = [xs]"
| "rows_of (Arr2 dt m rows) = rows"

text \<open>numpy's type promotion on the three element types of the model.\<close>

definition promote :: "dtype \<Rightarrow> dtype \<Rightarrow> dtype" where
  "promote a b = (if a = b then a else Float64)"

definition ebind :: "error + 'a \<Rightarrow> ('a \<Rightarrow> error + 'b) \<Rightarrow> error + 'b" where
  "ebind m f = (case m of Inl e \<Rightarrow> Inl e | Inr x \<Rightarrow> f x)"

definition concat_msg :: string where
  "concat_msg = ''all the input array dimensions except for the concatenation axis must match exactly''"

text \<open>
  \<^verbatim>\<open>np.block([[a, b], [c, d]])\<close> on two-dimensional blocks, each given as its
  number of columns and its rows: the blocks of a row are joined side by side
  (they must have the same number of rows), then the two rows of blocks are
  stacked (they must have the same number of columns).
\<close>

definition hstack :: "nat \<times> real list list \<Rightarrow> nat \<times> real list list \<Rightarrow> error + (nat \<times> real list list)" where
  "hstack a b =
     (if length (snd a) = length (snd b)
      then Inr (fst a + fst b, map2 (@) (snd a) (snd b))
      else Inl (ValueError concat_msg))"

definition vstack :: "nat \<times> real list list \<Rightarrow> nat \<times> real list list \<Rightarrow> error + (nat \<times> real list list)" where
  "vstack a b =
     (if fst a = fst b then Inr (fst a, snd a @ snd b)
      else Inl (ValueError concat_msg))"

definition np_block :: "nat \<times> real list list \<Rightarrow> nat \<times> real list list \<Rightarrow>
    nat \<times> real list list \<Rightarrow> nat \<times> real list list \<Rightarrow> error + ndarray" where
  "np_block a b c d =
     ebind (hstack a b) (\<lambda>top.
     ebind (hstack c d) (\<lambda>bot.
     ebind (vstack top bot) (\<lambda>r. Inr (Arr2 Float64 (fst r) (snd r)))))"

definition zeros :: "nat \<Rightarrow> nat \<Rightarrow> nat \<times> real list list" where
  "zeros n m = (m, replicate n (replicate m 0))"

definition eye :: "nat \<Rightarrow> nat \<times> real list list" where
  "eye n = (n, map (\<lambda>i. map (\<lambda>j. if i = j then 1 else 0) [0..<n]) [0..<n])"

section \<open>Array operations\<close>

text \<open>
  \<^verbatim>\<open>a[r0:r1, c0:c1]\<close>: a slice clamps to the array's bounds; indexing an array of
  fewer than two dimensions with two indices raises IndexError.
\<close>

fun slice2 :: "nat \<Rightarrow> nat \<Rightarrow> nat \<Rightarrow> nat \<Rightarrow> ndarray \<Rightarrow> error + ndarray" where
  "slice2 r0 r1 c0 c1 (Arr2 dt m rows) =
     Inr (Arr2 dt (min c1 m - c0) (map (\<lambda>r. drop c0 (take c1 r)) (drop r0 (take r1 rows))))"
| "slice2 r0 r1 c0 c1 (Arr1 dt xs) = Inl IndexError"
| "slice2 r0 r1 c0 c1 (Arr0 dt x) = Inl IndexError"

text \<open>\<^verbatim>\<open>a[:, c0:c1]\<close> and \<^verbatim>\<open>a[:, c]\<close>.\<close>

fun slice_cols :: "nat \<Rightarrow> nat \<Rightarrow> ndarray \<Rightarrow> error + ndarray" where
  "slice_cols c0 c1 (Arr2 dt m rows) =
     Inr (Arr2 dt (min c1 m - c0) (map (\<lambda>r. drop c0 (take c1 r)) rows))"
| "slice_cols c0 c1 (Arr1 dt xs) = Inl IndexError"
| "slice_cols c0 c1 (Arr0 dt x) = Inl IndexError"

fun column :: "nat \<Rightarrow> ndarray \<Rightarrow> error + ndarray" where
  "column c (Arr2 dt m rows) =
     (if c < m then Inr (Arr1 dt (map (\<lambda>r. r ! c) rows)) else Inl IndexError)"
| "column c (Arr1 dt xs) = Inl IndexError"
| "column c (Arr0 dt x) = Inl IndexError"

text \<open>The attribute \<^verbatim>\<open>.T\<close>.\<close>

fun nd_T :: "ndarray \<Rightarrow> ndarray" where
  "nd_T (Arr2 dt m rows) = Arr2 dt (length rows) (map (\<lambda>j. map (\<lambda>r. r ! j) rows) [0..<m])"
| "nd_T (Arr1 dt xs) = Arr1 dt xs"
| "nd_T (Arr0 dt x) = Arr0 dt x"

text \<open>Unary minus.\<close>

fun nd_neg :: "ndarray \<Rightarrow> ndarray" where
  "nd_neg (Arr2 dt m rows) = Arr2 dt m (map (map uminus) rows)"
| "nd_neg (Arr1 dt xs) = Arr1 dt (map uminus xs)"
| "nd_neg (Arr0 dt x) = Arr0 dt (- x)"

text \<open>The sum of the products of two vectors, in exact arithmetic.\<close>

definition dotprod :: "real list \<Rightarrow> real list \<Rightarrow> real" where
  "dotprod xs ys = sum_list (map2 (*) xs ys)"

definition matmul_msg :: string where
  "matmul_msg = ''matmul: Input operand has a mismatch in its core dimension''"

definition matmul_scalar_msg :: string where
  "matmul_scalar_msg = ''matmul: Input operand does not have enough dimensions''"

definition dot_msg :: string where
  "dot_msg = ''shapes not aligned''"

text \<open>
  The operator \<^verbatim>\<open>@\<close> (\<^verbatim>\<open>np.matmul\<close>): matrix by matrix, matrix by vector,
  vector by matrix, vector by vector; the inner dimensions must agree, and a
  zero-dimensional operand is refused.
\<close>

fun matmul :: "ndarray \<Rightarrow> ndarray \<Rightarrow> error + ndarray" where
  "matmul (Arr2 d1 m1 r1) (Arr2 d2 m2 r2) =
     (if m1 = length r2
      then Inr (Arr2 (promote d1 d2) m2
             (map (\<lambda>r. map (\<lambda>j. dotprod r (map (\<lambda>row. row ! j) r2)) [0..<m2]) r1))
      else Inl (ValueError matmul_msg))"
| "matmul (Arr2 d1 m1 r1) (Arr1 d2 ys) =
     (if m1 = length ys
      then Inr (Arr1 (promote d1 d2) (map (\<lambda>r. dotprod r ys) r1))
      else Inl (ValueError matmul_msg))"
| "matmul (Arr1 d1 xs) (Arr2 d2 m2 r2) =
     (if length xs = length r2
      then Inr (Arr1 (promote d1 d2) (map (\<lambda>j. dotprod xs (map (\<lambda>row. row ! j) r2)) [0..<m2]))
      else Inl (ValueError matmul_msg))"
| "matmul (Arr1 d1 xs) (Arr1 d2 ys) =
     (if length xs = length ys
      then Inr (Arr0 (promote d1 d2) (dotprod xs ys))
      else Inl (ValueError matmul_msg))"
| "matmul (Arr0 d1 x) b = Inl (ValueError matmul_scalar_msg)"
| "matmul a (Arr0 d2 y) = Inl (ValueError matmul_scalar_msg)"

text \<open>
  \<^verbatim>\<open>np.dot\<close> is \<^verbatim>\<open>@\<close> on arrays of one and two dimensions, and multiplies
  by the scalar when an operand is zero-dimensional.
\<close>

fun nd_scale :: "dtype \<Rightarrow> real \<Rightarrow> ndarray \<Rightarrow> ndarray" where
  "nd_scale d x (Arr2 dt m rows) = Arr2 (promote d dt) m (map (map ((*) x)) rows)"
| "nd_scale d x (Arr1 dt xs) = Arr1 (promote d dt) (map ((*) x) xs)"
| "nd_scale d x (Arr0 dt y) = Arr0 (promote d dt) (x * y)"

fun np_dot :: "ndarray \<Rightarrow> ndarray \<Rightarrow> error + ndarray" where
  "np_dot (Arr0 d1 x) b = Inr (nd_scale d1 x b)"
| "np_dot a (Arr0 d2 y) = Inr (nd_scale d2 y a)"
| "np_dot a b =
     (case matmul a b of
        Inl e \<Rightarrow> Inl (ValueError dot_msg)
      | Inr c \<Rightarrow> Inr c)"

text \<open>
  The same two products on operands that may be \<^verbatim>\<open>None\<close> (what
  \<^verbatim>\<open>build_block_matrix\<close> returns for a shape it does not know): \<^verbatim>\<open>np.dot\<close>
  then multiplies \<^verbatim>\<open>None\<close> by a number, a TypeError; \<^verbatim>\<open>@\<close> with one array
  operand hands \<^verbatim>\<open>None\<close> to \<^verbatim>\<open>np.matmul\<close> as a zero-dimensional operand, and
  with no array operand Python itself raises TypeError.
\<close>

fun np_dot_opt :: "ndarray option \<Rightarrow> ndarray option \<Rightarrow> error + ndarray" where
  "np_dot_opt (Some a) (Some b) = np_dot a b"
| "np_dot_opt a b = Inl TypeError"

fun matmul_opt :: "ndarray option \<Rightarrow> ndarray option \<Rightarrow> error + ndarray" where
  "matmul_opt (Some a) (Some b) = matmul a b"
| "matmul_opt None None = Inl TypeError"
| "matmul_opt a b = Inl (ValueError matmul_scalar_msg)"

text \<open>\<^verbatim>\<open>a.reshape(n, m)\<close>: the entries in row-major order, cut into \<open>n\<close> rows of \<open>m\<close>.\<close>

fun ravel :: "ndarray \<Rightarrow> real list" where
  "ravel (Arr2 dt m rows) = concat rows"
| "ravel (Arr1 dt xs) = xs"
| "ravel (Arr0 dt x) = [x]"

definition reshape_msg :: string where
  "reshape_msg = ''cannot reshape array''"

definition reshape :: "nat \<Rightarrow> nat \<Rightarrow> ndarray \<Rightarrow> error + ndarray" where
  "reshape n m a =
     (if length (ravel a) = n * m
      then Inr (Arr2 (dtype_of a) m (map (\<lambda>i. take m (drop (i * m) (ravel a))) [0..<n]))
      else Inl (ValueError reshape_msg))"

section \<open>Homogeneous blocks\<close>

text \<open>
  \<^verbatim>\<open>Camera.build_block_matrix\<close>. Reading \<^verbatim>\<open>mat.shape[1]\<close> of an array with
  fewer than two dimensions raises IndexError. In the last branch the source
  logs an error and returns \<^verbatim>\<open>None\<close>, which is the result \<open>Inr None\<close>.
\<close>

fun build_block_matrix :: "ndarray \<Rightarrow> error + ndarray option" where
  "build_block_matrix (Arr2 dt m rows) =
     (if m = 3 then
        ebind (np_block (m, rows) (zeros 3 1) (zeros 1 3) (1, [[1]])) (\<lambda>block. Inr (Some block))
      else if m = 1 then
        ebind (np_block (eye 3) (m, rows) (zeros 1 3) (1, [[1]])) (\<lambda>block. Inr (Some block))
      else Inr None)"
| "build_block_matrix (Arr1 dt xs) = Inl IndexError"
| "build_block_matrix (Arr0 dt x) = Inl IndexError"

section \<open>The camera\<close>

text \<open>
  The private attributes of \<^verbatim>\<open>Camera\<close>: \<open>p_w\<close> is \<^verbatim>\<open>self._w\<close>, \<open>p_h\<close> is
  \<^verbatim>\<open>self._h\<close>, and so on. \<open>p_width\<close> and \<open>p_height\<close> are the attributes
  \<^verbatim>\<open>self._width\<close> and \<^verbatim>\<open>self._height\<close>, which only
  \<^verbatim>\<open>read_calibration_from_file\<close> creates; \<open>None\<close> there means the attribute
  does not exist. For the other optional fields \<open>None\<close> is Python's \<^verbatim>\<open>None\<close>.
  Width and height are numpy values (the constructor annotates them so, and
  the calibration reader returns entries of an array): zero-dimensional arrays.
\<close>

record Camera =
  p_w :: "ndarray option"
  p_h :: "ndarray option"
  p_K :: "ndarray option"
  p_dist :: "ndarray option"
  p_extrinsics :: ndarray
  p_width :: "ndarray option"
  p_height :: "ndarray option"

text \<open>The getters of \<^verbatim>\<open>Camera\<close>: \<open>get_width\<close> is the property \<^verbatim>\<open>width\<close>, and so on.\<close>

definition get_width :: "Camera \<Rightarrow> ndarray option" where
  "get_width cam = p_w cam"

definition get_height :: "Camera \<Rightarrow> ndarray option" where
  "get_height cam = p_h cam"

definition get_K :: "Camera \<Rightarrow> ndarray option" where
  "get_K cam = p_K cam"

definition get_dist :: "Camera \<Rightarrow> ndarray option" where
  "get_dist cam = p_dist cam"

definition get_extrinsics :: "Camera \<Rightarrow> ndarray" where
  "get_extrinsics cam = p_extrinsics cam"

text \<open>\<^verbatim>\<open>self.R\<close> is \<^verbatim>\<open>self._extrinsics[0:3, 0:3]\<close>, \<^verbatim>\<open>self.t\<close> is \<^verbatim>\<open>self._extrinsics[0:3, 3:4]\<close>.\<close>

definition get_R :: "Camera \<Rightarrow> error + ndarray" where
  "get_R cam = slice2 0 3 0 3 (p_extrinsics cam)"

definition get_t :: "Camera \<Rightarrow> error + ndarray" where
  "get_t cam = slice2 0 3 3 4 (p_extrinsics cam)"

definition update_K :: "Camera \<Rightarrow> ndarray option \<Rightarrow> Camera" where
  "update_K cam k = cam\<lparr>p_K := k\<rparr>"

definition update_dist :: "Camera \<Rightarrow> ndarray option \<Rightarrow> Camera" where
  "update_dist cam d = cam\<lparr>p_dist := d\<rparr>"

text \<open>
  \<^verbatim>\<open>extrinsics[3, :]\<close> on a \<open>4 \<times> 4\<close> array, as \<^verbatim>\<open>update_extrinsics\<close> reads it
  after the shape check.
\<close>

definition row3 :: "ndarray \<Rightarrow> real list" where
  "row3 a = rows_of a ! 3"

definition update_extrinsics :: "Camera \<Rightarrow> ndarray \<Rightarrow> error + Camera" where
  "update_extrinsics cam ext =
     (if shape ext \<noteq> [4, 4] then Inl AssertionError
      else if dtype_of ext \<noteq> Float64 then Inl AssertionError
      else if row3 ext \<noteq> [0, 0, 0, 1] then Inl AssertionError
      else Inr (cam\<lparr>p_extrinsics := ext\<rparr>))"

definition reset_EO :: "Camera \<Rightarrow> Camera" where
  "reset_EO cam = cam\<lparr>p_extrinsics := Arr2 Float64 (fst (eye 4)) (snd (eye 4))\<rparr>"

section \<open>Extrinsics, pose, rotation and translation\<close>

text \<open>
  \<^verbatim>\<open>Camera.extrinsics_to_pose\<close>; the optional argument defaults to the camera's
  own matrix.
\<close>

definition extrinsics_to_pose :: "Camera \<Rightarrow> ndarray option \<Rightarrow> error + ndarray" where
  "extrinsics_to_pose cam extrinsics_arg =
     (let ext = (case extrinsics_arg of None \<Rightarrow> p_extrinsics cam | Some e \<Rightarrow> e) in
      ebind (slice2 0 3 0 3 ext) (\<lambda>R.
      ebind (slice2 0 3 3 4 ext) (\<lambda>t.
      let Rc = nd_T R in
      ebind (np_dot Rc t) (\<lambda>d.
      let C = nd_neg d in
      ebind (build_block_matrix Rc) (\<lambda>Rc_block.
      ebind (build_block_matrix C) (\<lambda>C_block.
      np_dot_opt C_block Rc_block))))))"

text \<open>\<^verbatim>\<open>Camera.pose_to_extrinsics\<close>, which does not read the camera.\<close>

definition pose_to_extrinsics :: "ndarray \<Rightarrow> error + ndarray" where
  "pose_to_extrinsics pose =
     ebind (slice2 0 3 0 3 pose) (\<lambda>Rc.
     ebind (slice2 0 3 3 4 pose) (\<lambda>C.
     let R = nd_T Rc in
     ebind (matmul (nd_neg R) C) (\<lambda>t.
     ebind (build_block_matrix t) (\<lambda>t_block.
     ebind (build_block_matrix R) (\<lambda>R_block.
     matmul_opt t_block R_block)))))"

text \<open>
  \<^verbatim>\<open>Camera.Rt_to_extrinsics\<close>. The guard lets a one-dimensional \<open>t\<close> and a
  \<open>1 \<times> 3\<close> row in; the assertion then compares \<^verbatim>\<open>t.shape[0]\<close> with 3.
\<close>

definition Rt_to_extrinsics :: "ndarray \<Rightarrow> ndarray \<Rightarrow> error + ndarray" where
  "Rt_to_extrinsics R t =
     ebind (if length (shape t) = 1 \<or> shape t = [1, 3]
            then (if shape t ! 0 = 3 then reshape 3 1 t else Inl AssertionError)
            else Inr t) (\<lambda>t.
     ebind (build_block_matrix R) (\<lambda>R_block.
     ebind (build_block_matrix t) (\<lambda>t_block.
     matmul_opt t_block R_block)))"

section \<open>Reading a calibration file\<close>

text \<open>
  A calibration file holds one line of numbers. \<^verbatim>\<open>np.loadtxt\<close> (a collaborator)
  turns the text into numbers, so a file is modelled by the list of the values
  on its line. \<^verbatim>\<open>np.loadtxt\<close> returns a one-dimensional array of them, except
  that a single value comes back as a zero-dimensional array.
  The file system is a map from paths to files.
\<close>

fun loadtxt :: "real list \<Rightarrow> ndarray" where
  "loadtxt [x] = Arr0 Float64 x"
| "loadtxt xs = Arr1 Float64 xs"

text \<open>\<^verbatim>\<open>a[i]\<close>, \<^verbatim>\<open>a[i:j]\<close>, \<^verbatim>\<open>len(a)\<close> and \<^verbatim>\<open>a.astype(float)\<close>.\<close>

fun getitem :: "nat \<Rightarrow> ndarray \<Rightarrow> error + ndarray" where
  "getitem i (Arr2 dt m rows) = (if i < length rows then Inr (Arr1 dt (rows ! i)) else Inl IndexError)"
| "getitem i (Arr1 dt xs) = (if i < length xs then Inr (Arr0 dt (xs ! i)) else Inl IndexError)"
| "getitem i (Arr0 dt x) = Inl IndexError"

fun slice1 :: "nat \<Rightarrow> nat \<Rightarrow> ndarray \<Rightarrow> error + ndarray" where
  "slice1 i j (Arr2 dt m rows) = Inr (Arr2 dt m (drop i (take j rows)))"
| "slice1 i j (Arr1 dt xs) = Inr (Arr1 dt (drop i (take j xs)))"
| "slice1 i j (Arr0 dt x) = Inl IndexError"

fun len :: "ndarray \<Rightarrow> error + nat" where
  "len (Arr2 dt m rows) = Inr (length rows)"
| "len (Arr1 dt xs) = Inr (length xs)"
| "len (Arr0 dt x) = Inl TypeError"

fun astype :: "dtype \<Rightarrow> ndarray \<Rightarrow> ndarray" where
  "astype d (Arr2 dt m rows) = Arr2 d m rows"
| "astype d (Arr1 dt xs) = Arr1 d xs"
| "astype d (Arr0 dt x) = Arr0 d x"

definition missing_msg :: string where
  "missing_msg = ''Calibration filed does not exist.''"

definition grammar_msg :: string where
  "grammar_msg = ''Invalid intrinsics data. Calibration file must be formatted as follows:''
     @ [CHR 0x0A]
     @ ''width height fx 0. cx 0. fy cy 0. 0. 1. k1, k2, p1, p2, [k3, [k4, k5, k6''"

text \<open>
  \<^verbatim>\<open>read_opencv_calibration\<close>. The flag \<^verbatim>\<open>verbose\<close> only adds log lines and is
  left out.
\<close>

definition read_opencv_calibration ::
    "(string \<Rightarrow> real list option) \<Rightarrow> string \<Rightarrow> error + (ndarray \<times> ndarray \<times> ndarray \<times> ndarray)" where
  "read_opencv_calibration fs path =
     (case fs path of
        None \<Rightarrow> Inl (ValueError missing_msg)
      | Some line \<Rightarrow>
          (let data = loadtxt line in
           ebind (getitem 0 data) (\<lambda>w.
           ebind (getitem 1 data) (\<lambda>h.
           ebind (slice1 2 11 data) (\<lambda>s.
           ebind (reshape 3 3 (astype Float64 s)) (\<lambda>K.
           ebind (len data) (\<lambda>n.
           if n = 15 then
             ebind (slice1 11 15 data) (\<lambda>d. Inr (w, h, K, astype Float64 d))
           else if n = 16 then
             ebind (slice1 11 16 data) (\<lambda>d. Inr (w, h, K, astype Float64 d))
           else if n = 19 then
             ebind (slice1 11 19 data) (\<lambda>d. Inr (w, h, K, astype Float64 d))
           else Inl (ValueError grammar_msg))))))))"

text \<open>\<^verbatim>\<open>Camera.read_calibration_from_file\<close>: the attributes it assigns are
  \<^verbatim>\<open>_width\<close>, \<^verbatim>\<open>_height\<close>, \<^verbatim>\<open>_K\<close> and \<^verbatim>\<open>_dist\<close>.\<close>

definition read_calibration_from_file ::
    "(string \<Rightarrow> real list option) \<Rightarrow> Camera \<Rightarrow> string \<Rightarrow> error + Camera" where
  "read_calibration_from_file fs cam path =
     ebind (read_opencv_calibration fs path) (\<lambda>(w, h, K, dist).
       Inr (cam\<lparr>p_width := Some w, p_height := Some h, p_K := Some K, p_dist := Some dist\<rparr>))"

text \<open>
  \<^verbatim>\<open>Camera.__init__\<close>: the attributes are set, the exterior orientation is
  reset, then replaced from \<open>(R, t)\<close> when both are given, then by
  \<open>extrinsics\<close> when it is given, and last the calibration file is read when
  a path is given. (The record needs some value for \<open>p_extrinsics\<close> before
  \<open>reset_EO\<close> creates the attribute; \<open>reset_EO\<close> overwrites it.)
\<close>

definition Camera_init ::
    "(string \<Rightarrow> real list option) \<Rightarrow> ndarray option \<Rightarrow> ndarray option \<Rightarrow> ndarray option \<Rightarrow>
     ndarray option \<Rightarrow> ndarray option \<Rightarrow> ndarray option \<Rightarrow> ndarray option \<Rightarrow> string option \<Rightarrow>
     error + Camera" where
  "Camera_init fs width height K dist' R t extrinsics calib_path =
     (let self = reset_EO \<lparr>p_w = width, p_h = height, p_K = K, p_dist = dist',
                   p_extrinsics = Arr1 Float64 [], p_width = None, p_height = None\<rparr> in
      ebind (case (R, t) of
               (Some R', Some t') \<Rightarrow>
                 ebind (Rt_to_extrinsics R' t') (\<lambda>e. Inr (self\<lparr>p_extrinsics := e\<rparr>))
             | _ \<Rightarrow> Inr self) (\<lambda>self.
      let self = (case extrinsics of None \<Rightarrow> self | Some e \<Rightarrow> self\<lparr>p_extrinsics := e\<rparr>) in
      (case calib_path of
         None \<Rightarrow> Inr self
       | Some path \<Rightarrow> read_calibration_from_file fs self path)))"

section \<open>Intrinsics from EXIF data\<close>

text \<open>
  An EXIF tag has a list of values and a printable form; the EXIF data are a
  dictionary from tag names to tags. A missing key raises KeyError, an empty
  list of values IndexError.
\<close>

record exif_tag =
  tag_values :: "real list"
  tag_printable :: string

definition dict_get :: "(string \<Rightarrow> 'a option) \<Rightarrow> string \<Rightarrow> error + 'a" where
  "dict_get d k = (case d k of None \<Rightarrow> Inl (KeyError k) | Some v \<Rightarrow> Inr v)"

definition first_item :: "'a list \<Rightarrow> error + 'a" where
  "first_item xs = (case xs of [] \<Rightarrow> Inl IndexError | x # rest \<Rightarrow> Inr x)"

text \<open>\<^verbatim>\<open>str.lower\<close> and \<^verbatim>\<open>str.split\<close> on ASCII text.\<close>

definition lower_char :: "char \<Rightarrow> char" where
  "lower_char c =
     (let n = (of_char c :: nat) in if 65 \<le> n \<and> n \<le> 90 then char_of (n + 32) else c)"

definition lower :: "string \<Rightarrow> string" where
  "lower s = map lower_char s"

definition is_space :: "char \<Rightarrow> bool" where
  "is_space c = ((of_char c :: nat) \<in> {9, 10, 11, 12, 13, 28, 29, 30, 31, 32})"

fun split_from :: "string \<Rightarrow> string \<Rightarrow> string list" where
  "split_from cur [] = (if cur = [] then [] else [cur])"
| "split_from cur (c # cs) =
     (if is_space c then (if cur = [] then split_from [] cs else cur # split_from [] cs)
      else split_from (cur @ [c]) cs)"

definition split :: "string \<Rightarrow> string list" where
  "split s = split_from [] s"

text \<open>
  \<^verbatim>\<open>SensorWidthDatabase\<close> of \<^verbatim>\<open>utils/sensor_width_database.py\<close>. A row of the
  table is a maker, a model and a sensor width in millimetres. The table
  comes from a CSV file; without the file, reading it raises
  FileNotFoundError, which is an OSError.
\<close>

type_synonym sensor_row = "string \<times> string \<times> real"

definition SensorWidthDatabase :: "sensor_row list option \<Rightarrow> error + sensor_row list" where
  "SensorWidthDatabase csv =
     (case csv of
        None \<Rightarrow> Inl OSError
      | Some rows \<Rightarrow> Inr (map (\<lambda>(maker, model, w). (lower maker, lower model, w)) rows))"

definition lookup :: "sensor_row list \<Rightarrow> string \<Rightarrow> string \<Rightarrow> error + real" where
  "lookup df make' model' =
     ebind (first_item (split make')) (\<lambda>first.
     let lower_make = lower first;
         lower_model = lower model';
         selected = filter (\<lambda>(maker, model, w). maker = lower_make \<and> model = lower_model) df
     in if length selected \<noteq> 1 then Inl LookupError
        else Inr (snd (snd (selected ! 0))))"

text \<open>
  \<^verbatim>\<open>try: ... except OSError: logging.error(...); return None\<close>: only an OSError
  is caught, every other exception leaves the function.
\<close>

definition try_except_OSError ::
    "error + 'a \<Rightarrow> (error + 'b option) \<Rightarrow> ('a \<Rightarrow> error + 'b option) \<Rightarrow> error + 'b option" where
  "try_except_OSError body handler rest =
     (case body of
        Inl e \<Rightarrow> (if e = OSError then handler else Inl e)
      | Inr x \<Rightarrow> rest x)"

text \<open>
  \<^verbatim>\<open>Calibration.get_intrinsics_from_exif\<close>. The sensor width is a positive
  number of the table; a zero width has no counterpart here, since numpy
  would divide to infinity.
\<close>

definition get_intrinsics_from_exif ::
    "sensor_row list option \<Rightarrow> (string \<Rightarrow> exif_tag option) \<Rightarrow>
     error + (real \<times> real \<times> ndarray \<times> ndarray) option" where
  "get_intrinsics_from_exif csv exif =
     try_except_OSError
       (ebind (dict_get exif ''EXIF FocalLength'') (\<lambda>tag. first_item (tag_values tag)))
       (Inr None)
       (\<lambda>focal_length_mm.
     try_except_OSError
       (ebind (SensorWidthDatabase csv) (\<lambda>sensor_width_db.
        ebind (dict_get exif ''Image Make'') (\<lambda>make'.
        ebind (dict_get exif ''Image Model'') (\<lambda>model'.
        lookup sensor_width_db (tag_printable make') (tag_printable model')))))
       (Inr None)
       (\<lambda>sensor_width_mm.
     try_except_OSError
       (ebind (dict_get exif ''EXIF ExifImageWidth'') (\<lambda>tw.
        ebind (first_item (tag_values tw)) (\<lambda>img_w_px.
        ebind (dict_get exif ''EXIF ExifImageLength'') (\<lambda>th.
        ebind (first_item (tag_values th)) (\<lambda>img_h_px. Inr (img_w_px, img_h_px))))))
       (Inr None)
       (\<lambda>(img_w_px, img_h_px).
          let focal_length_px = max img_h_px img_w_px * focal_length_mm / sensor_width_mm;
              center_x = img_w_px / 2;
              center_y = img_h_px / 2;
              K = Arr2 Float64 3 [[focal_length_px, 0, center_x],
                                  [0, focal_length_px, center_y],
                                  [0, 0, 1]];
              dist' = Arr1 Float64 (replicate 5 0)
          in Inr (Some (img_w_px, img_h_px, K, dist')))))"

section \<open>The Agisoft XML reader\<close>

text \<open>
  An element of the XML tree has attributes, an optional text and children.
  Parsing the file (\<^verbatim>\<open>ET.parse\<close>), \<^verbatim>\<open>int\<close> on a string and the conversion of
  a string to a float are collaborators: \<open>parse\<close>, \<open>py_int\<close> and \<open>py_float\<close>,
  the last two returning \<open>None\<close> where Python raises ValueError.
\<close>

datatype element = Element (el_attrib: "(string \<times> string) list") (el_text: "string option")
    (el_children: "element list")

definition child :: "element \<Rightarrow> nat \<Rightarrow> error + element" where
  "child e i = (if i < length (el_children e) then Inr (el_children e ! i) else Inl IndexError)"

definition int_msg :: string where
  "int_msg = ''invalid literal for int()''"

definition float_msg :: string where
  "float_msg = ''could not convert string to float''"

text \<open>\<^verbatim>\<open>int(e.text)\<close>.\<close>

definition text_int :: "(string \<Rightarrow> int option) \<Rightarrow> element \<Rightarrow> error + int" where
  "text_int py_int e =
     (case el_text e of
        None \<Rightarrow> Inl TypeError
      | Some s \<Rightarrow> (case py_int s of None \<Rightarrow> Inl (ValueError int_msg) | Some n \<Rightarrow> Inr n))"

text \<open>\<^verbatim>\<open>np.array(e.text.split(), dtype=float)\<close>.\<close>

fun floats :: "(string \<Rightarrow> real option) \<Rightarrow> string list \<Rightarrow> error + real list" where
  "floats py_float [] = Inr []"
| "floats py_float (s # ss) =
     (case py_float s of
        None \<Rightarrow> Inl (ValueError float_msg)
      | Some x \<Rightarrow> ebind (floats py_float ss) (\<lambda>xs. Inr (x # xs)))"

definition text_floats :: "(string \<Rightarrow> real option) \<Rightarrow> element \<Rightarrow> error + real list" where
  "text_floats py_float e =
     (case el_text e of
        None \<Rightarrow> Inl AttributeError
      | Some s \<Rightarrow> floats py_float (split s))"

definition item :: "real list \<Rightarrow> nat \<Rightarrow> error + real" where
  "item xs i = (if i < length xs then Inr (xs ! i) else Inl IndexError)"

text \<open>
  \<^verbatim>\<open>Calibration.read_agisoft_xml_opencv\<close>. The result vector
  \<^verbatim>\<open>np.array([k1, k2, p1, p2, k3, k4])\<close> may hold \<^verbatim>\<open>None\<close> in its last two
  places, so it is a list of optional numbers. The variable \<open>dist_raw\<close> is
  \<^verbatim>\<open>dist_\<close> of the source.
\<close>

definition read_agisoft_xml_opencv ::
    "(string \<Rightarrow> error + element) \<Rightarrow> (string \<Rightarrow> int option) \<Rightarrow> (string \<Rightarrow> real option) \<Rightarrow> string \<Rightarrow>
     error + (int \<times> int \<times> ndarray \<times> real option list)" where
  "read_agisoft_xml_opencv parse py_int py_float path =
     ebind (parse path) (\<lambda>root.
     ebind (child root 3) (\<lambda>root3.
     ebind (dict_get (map_of (el_attrib root3)) ''type_id'') (\<lambda>camera_type.
     if camera_type \<noteq> ''opencv-matrix'' then Inl AssertionError else
     ebind (child root 0) (\<lambda>time.
     ebind (ebind (child root 1) (text_int py_int)) (\<lambda>w.
     ebind (ebind (child root 2) (text_int py_int)) (\<lambda>h.
     ebind (ebind (ebind (child root3 3) (text_floats py_float))
              (\<lambda>ks. reshape 3 3 (Arr1 Float64 ks))) (\<lambda>K.
     ebind (ebind (ebind (child root 4) (\<lambda>root4. child root4 3)) (text_floats py_float)) (\<lambda>dist_raw.
     ebind (item dist_raw 0) (\<lambda>k1.
     ebind (item dist_raw 1) (\<lambda>k2.
     ebind (item dist_raw 3) (\<lambda>p1.
     ebind (item dist_raw 2) (\<lambda>p2.
     ebind (if length dist_raw = 5 then ebind (item dist_raw 4) (\<lambda>k3. Inr (Some k3, None))
            else if length dist_raw = 6 then
              ebind (item dist_raw 4) (\<lambda>k3. ebind (item dist_raw 5) (\<lambda>k4. Inr (Some k3, Some k4)))
            else Inr (None, None)) (\<lambda>(k3, k4).
     Inr (w, h, K, [Some k1, Some k2, Some p1, Some p2, k3, k4]))))))))))))))"

section \<open>Linear algebra\<close>

text \<open>
  The determinant, by expansion along the first row; it stands for
  \<^verbatim>\<open>scipy.linalg.det\<close> in exact arithmetic.
\<close>

definition del_col :: "nat \<Rightarrow> real list \<Rightarrow> real list" where
  "del_col j r = take j r @ drop (Suc j) r"

fun det :: "real list list \<Rightarrow> real" where
  "det [] = 1"
| "det (r # rs) = sum_list (map (\<lambda>j. (- 1) ^ j * r ! j * det (map (del_col j) rs)) [0..<length r])"

text \<open>A \<open>3 \<times> 3\<close> matrix \<open>A\<close> is orthonormal when \<open>A A\<^sup>T\<close> is the identity.\<close>

definition orthonormal :: "ndarray \<Rightarrow> bool" where
  "orthonormal A = (case matmul A (nd_T A) of Inr B \<Rightarrow> rows_of B = snd (eye 3) | Inl e \<Rightarrow> False)"

text \<open>The invariant of the stored extrinsics: shape \<open>4 \<times> 4\<close>, last row \<open>[0, 0, 0, 1]\<close>.\<close>

definition homogeneous44 :: "ndarray \<Rightarrow> bool" where
  "homogeneous44 a \<longleftrightarrow> shape a = [4, 4] \<and> last (rows_of a) = [0, 0, 0, 1]"

section \<open>The projection matrix and its factorisation\<close>

text \<open>
  The property \<^verbatim>\<open>P\<close> fills a \<open>3 \<times> 4\<close> array of zeros with \<^verbatim>\<open>self.R\<close> and
  \<^verbatim>\<open>self.t\<close> by slice assignment, which broadcasts a dimension of size 1, and
  multiplies it by \<^verbatim>\<open>self.K\<close>.
\<close>

definition broadcast_msg :: string where
  "broadcast_msg = ''could not broadcast input array''"

definition broadcast_rows :: "nat \<Rightarrow> nat \<Rightarrow> nat \<Rightarrow> real list list \<Rightarrow> error + real list list" where
  "broadcast_rows n c m rows =
     (if (length rows = n \<or> length rows = 1) \<and> (m = c \<or> m = 1)
      then Inr (map (\<lambda>r. if m = c then r else replicate c (r ! 0))
                  (if length rows = n then rows else replicate n (rows ! 0)))
      else Inl (ValueError broadcast_msg))"

fun broadcast_to :: "nat \<Rightarrow> nat \<Rightarrow> ndarray \<Rightarrow> error + real list list" where
  "broadcast_to n c (Arr2 dt m rows) = broadcast_rows n c m rows"
| "broadcast_to n c (Arr1 dt xs) = broadcast_rows n c (length xs) [xs]"
| "broadcast_to n c (Arr0 dt x) = Inr (replicate n (replicate c x))"

text \<open>The property \<^verbatim>\<open>P\<close>, named \<open>get_P\<close> like the other getters.\<close>

definition get_P :: "Camera \<Rightarrow> error + ndarray" where
  "get_P cam =
     ebind (get_R cam) (\<lambda>R.
     ebind (broadcast_to 3 3 R) (\<lambda>Rb.
     ebind (get_t cam) (\<lambda>t.
     ebind (broadcast_to 3 1 t) (\<lambda>tb.
     matmul_opt (get_K cam) (Some (Arr2 Float64 4 (map2 (@) Rb tb)))))))"

text \<open>
  \<^verbatim>\<open>np.diag\<close> (the diagonal of a matrix, or the diagonal matrix of a vector),
  \<^verbatim>\<open>np.sign\<close>, \<^verbatim>\<open>scipy.linalg.det\<close>, \<^verbatim>\<open>scipy.linalg.inv\<close> (by cofactors, in
  exact arithmetic; a singular matrix raises LinAlgError) and the update
  \<^verbatim>\<open>T[1, 1] *= -1\<close>.
\<close>

definition diag_msg :: string where
  "diag_msg = ''Input must be 1- or 2-d.''"

fun np_diag :: "ndarray \<Rightarrow> error + ndarray" where
  "np_diag (Arr2 dt m rows) = Inr (Arr1 dt (map (\<lambda>k. rows ! k ! k) [0..<min (length rows) m]))"
| "np_diag (Arr1 dt xs) =
     Inr (Arr2 dt (length xs)
            (map (\<lambda>i. map (\<lambda>j. if i = j then xs ! i else 0) [0..<length xs]) [0..<length xs]))"
| "np_diag (Arr0 dt x) = Inl (ValueError diag_msg)"

fun np_sign :: "ndarray \<Rightarrow> ndarray" where
  "np_sign (Arr2 dt m rows) = Arr2 dt m (map (map sgn) rows)"
| "np_sign (Arr1 dt xs) = Arr1 dt (map sgn xs)"
| "np_sign (Arr0 dt x) = Arr0 dt (sgn x)"

definition square_msg :: string where
  "square_msg = ''expected square matrix''"

fun linalg_det :: "ndarray \<Rightarrow> error + real" where
  "linalg_det (Arr2 dt m rows) =
     (if length rows = m then Inr (det rows) else Inl (ValueError square_msg))"
| "linalg_det a = Inl (ValueError square_msg)"

definition minor :: "nat \<Rightarrow> nat \<Rightarrow> real list list \<Rightarrow> real list list" where
  "minor i j rows = map (del_col j) (take i rows @ drop (Suc i) rows)"

definition inv_dtype :: "dtype \<Rightarrow> dtype" where
  "inv_dtype dt = (if dt = Float32 then Float32 else Float64)"

fun linalg_inv :: "ndarray \<Rightarrow> error + ndarray" where
  "linalg_inv (Arr2 dt m rows) =
     (if length rows \<noteq> m then Inl (ValueError square_msg)
      else if det rows = 0 then Inl LinAlgError
      else Inr (Arr2 (inv_dtype dt) m
             (map (\<lambda>i. map (\<lambda>j. (- 1) ^ (i + j) * det (minor j i rows) / det rows) [0..<m]) [0..<m])))"
| "linalg_inv a = Inl (ValueError square_msg)"

fun imul11 :: "ndarray \<Rightarrow> error + ndarray" where
  "imul11 (Arr2 dt m rows) =
     (if 1 < length rows \<and> 1 < m
      then Inr (Arr2 dt m (rows[1 := (rows ! 1)[1 := rows ! 1 ! 1 * (- 1)]]))
      else Inl IndexError)"
| "imul11 a = Inl IndexError"

text \<open>
  \<^verbatim>\<open>Camera.factor_P\<close>. The RQ decomposition \<^verbatim>\<open>scipy.linalg.rq\<close> is a
  collaborator, the parameter \<open>rq\<close>: for a matrix \<open>M\<close> it returns an upper
  triangular \<open>K0\<close> and an orthogonal \<open>R0\<close> with \<open>K0 R0 = M\<close>.
\<close>

definition factor_P ::
    "(ndarray \<Rightarrow> error + ndarray \<times> ndarray) \<Rightarrow> Camera \<Rightarrow> error + (ndarray \<times> ndarray \<times> ndarray)" where
  "factor_P rq cam =
     ebind (get_P cam) (\<lambda>P1.
     ebind (slice_cols 0 3 P1) (\<lambda>M.
     ebind (rq M) (\<lambda>(K0, R0).
     ebind (np_diag K0) (\<lambda>d.
     ebind (np_diag (np_sign d)) (\<lambda>T0.
     ebind (linalg_det T0) (\<lambda>dT.
     ebind (if dT < 0 then imul11 T0 else Inr T0) (\<lambda>T.
     ebind (np_dot K0 T) (\<lambda>K.
     ebind (np_dot T R0) (\<lambda>R.
     ebind (linalg_inv K) (\<lambda>Kinv.
     ebind (get_P cam) (\<lambda>P2.
     ebind (column 3 P2) (\<lambda>p3.
     ebind (np_dot Kinv p3) (\<lambda>v.
     ebind (reshape 3 1 v) (\<lambda>t.
     Inr (K, R, t)))))))))))))))"

section \<open>Example inputs\<close>

text \<open>
  A small file system: the calibration line of the specification's example,
  and lines with three values, one value, no value and fourteen values.
\<close>

definition calib_fs :: "string \<Rightarrow> real list option" where
  "calib_fs path =
     (if path = ''calib.txt''
      then Some [1920, 1080, 1000, 0, 960, 0, 1000, 540, 0, 0, 1, 1 / 10, 5 / 100, 1 / 1000, 2 / 1000]
      else if path = ''short.txt'' then Some [1920, 1080, 1000]
      else if path = ''single.txt'' then Some [1920]
      else if path = ''empty.txt'' then Some []
      else if path = ''fourteen.txt''
      then Some [1920, 1080, 1000, 0, 960, 0, 1000, 540, 0, 0, 1, 1 / 10, 5 / 100, 1 / 1000]
      else None)"

text \<open>A camera in its reset state, with nothing else set.\<close>

definition blank_camera :: Camera where
  "blank_camera = \<lparr>p_w = None, p_h = None, p_K = None, p_dist = None,
     p_extrinsics = Arr2 Float64 4 [[1, 0, 0, 0], [0, 1, 0, 0], [0, 0, 1, 0], [0, 0, 0, 1]],
     p_width = None, p_height = None\<rparr>"

text \<open>EXIF data of a camera, and a sensor table with its maker and model.\<close>

definition nikon_exif :: "string \<Rightarrow> exif_tag option" where
  "nikon_exif = map_of
     [(''EXIF FocalLength'', \<lparr>tag_values = [35], tag_printable = ''35''\<rparr>),
      (''Image Make'', \<lparr>tag_values = [], tag_printable = ''NIKON CORPORATION''\<rparr>),
      (''Image Model'', \<lparr>tag_values = [], tag_printable = ''NIKON D800''\<rparr>),
      (''EXIF ExifImageWidth'', \<lparr>tag_values = [7360], tag_printable = ''7360''\<rparr>),
      (''EXIF ExifImageLength'', \<lparr>tag_values = [4912], tag_printable = ''4912''\<rparr>)]"

definition sensor_csv :: "sensor_row list" where
  "sensor_csv = [(''Nikon'', ''Nikon D800'', 359 / 10), (''Canon'', ''Canon EOS 5D'', 36)]"

text \<open>
  An Agisoft calibration tree with five distortion values, and readers of the
  integer and decimal literals that occur in it.
\<close>

definition matrix_node :: "string \<Rightarrow> element" where
  "matrix_node data = Element [(''type_id'', ''opencv-matrix'')] None
     [Element [] (Some ''3'') [], Element [] (Some ''3'') [], Element [] (Some ''d'') [],
      Element [] (Some data) []]"

definition agisoft_root :: element where
  "agisoft_root = Element [] None
     [Element [] (Some ''now'') [],
      Element [] (Some ''1920'') [],
      Element [] (Some ''1080'') [],
      matrix_node ''1000 0 960 0 1000 540 0 0 1'',
      matrix_node ''1 2 3 4 5'']"

definition demo_int :: "string \<Rightarrow> int option" where
  "demo_int = map_of [(''1920'', 1920), (''1080'', 1080)]"

definition demo_float :: "string \<Rightarrow> real option" where
  "demo_float = map_of [(''0'', 0), (''1'', 1), (''2'', 2), (''3'', 3), (''4'', 4), (''5'', 5),
     (''540'', 540), (''960'', 960), (''1000'', 1000)]"

text \<open>
  The camera of the specification's factorisation example, and the same
  camera turned by 90 degrees about its optical axis (\<open>R = Rz(90)\<close>, the same
  \<open>K\<close> and \<open>t\<close>).
\<close>

definition spec_camera :: Camera where
  "spec_camera = \<lparr>p_w = None, p_h = None,
     p_K = Some (Arr2 Float64 3 [[1000, 0, 960], [0, 1000, 540], [0, 0, 1]]), p_dist = None,
     p_extrinsics = Arr2 Float64 4 [[1, 0, 0, 0], [0, 1, 0, 0], [0, 0, 1, 5], [0, 0, 0, 1]],
     p_width = None, p_height = None\<rparr>"

definition turned_camera :: Camera where
  "turned_camera = \<lparr>p_w = None, p_h = None,
     p_K = Some (Arr2 Float64 3 [[1000, 0, 960], [0, 1000, 540], [0, 0, 1]]), p_dist = None,
     p_extrinsics = Arr2 Float64 4 [[0, - 1, 0, 0], [1, 0, 0, 0], [0, 0, 1, 5], [0, 0, 0, 1]],
     p_width = None, p_height = None\<rparr>"

text \<open>
  What \<^verbatim>\<open>scipy.linalg.rq\<close> (LAPACK's Householder RQ, which works upwards from
  the last row) returns at the two matrices \<open>P[:, :3]\<close> of these cameras.
  \<^item> \<open>rq_upper\<close>: an upper triangular matrix needs no reflector; it comes back
    itself, with the identity.
  \<^item> \<open>rq_turned\<close>: for \<open>[[0, -1000, 960], [1000, 0, 540], [0, 0, 1]]\<close> the last
    row needs no reflector; in the second row the entry 1000 left of the
    diagonal entry 0 is cleared by the reflector that exchanges the first two
    columns with a change of sign, which puts \<open>-1000\<close> on the diagonal (the
    sign LAPACK chooses for a diagonal entry 0); the first row then is
    \<open>(1000, 0, 960)\<close> and needs no reflector.
\<close>

definition rq_upper :: "ndarray \<Rightarrow> error + ndarray \<times> ndarray" where
  "rq_upper M = Inr (M, Arr2 Float64 3 [[1, 0, 0], [0, 1, 0], [0, 0, 1]])"

definition rq_turned :: "ndarray \<Rightarrow> error + ndarray \<times> ndarray" where
  "rq_turned M =
     Inr (Arr2 Float64 3 [[1000, 0, 960], [0, - 1000, 540], [0, 0, 1]],
          Arr2 Float64 3 [[0, - 1, 0], [- 1, 0, 0], [0, 0, 1]])"

section \<open>Evaluation lemmas\<close>

lemma ebind_simps: "ebind (Inr x) f = f x" "ebind (Inl e) f = Inl e"
  by (simp_all add: ebind_def)

lemma ebind_Inr: "ebind m f = Inr y \<Longrightarrow> \<exists>x. m = Inr x \<and> f x = Inr y"
  by (cases m) (auto simp: ebind_def)

lemma lower_nikon: "lower ''NIKON'' = ''nikon''" "lower ''NIKON D800'' = ''nikon d800''"
  "lower ''Nikon'' = ''nikon''" "lower ''Nikon D800'' = ''nikon d800''"
  "lower ''Canon'' = ''canon''" "lower ''Canon EOS 5D'' = ''canon eos 5d''"
  by code_simp+

lemma split_nikon: "split ''NIKON CORPORATION'' = [''NIKON'', ''CORPORATION'']"
  by (simp add: split_def is_space_def)

lemma split_K: "split ''1000 0 960 0 1000 540 0 0 1'' = [''1000'', ''0'', ''960'', ''0'', ''1000'', ''540'', ''0'', ''0'', ''1'']"
  by code_simp

lemma split_d: "split ''1 2 3 4 5'' = [''1'', ''2'', ''3'', ''4'', ''5'']"
  by code_simp

lemma zeros_3_1: "zeros 3 (Suc 0) = (Suc 0, [[0], [0], [0]])"
  by (simp add: zeros_def eval_nat_numeral)

lemma zeros_1_3: "zeros (Suc 0) 3 = (3, [[0, 0, 0]])"
  by (simp add: zeros_def eval_nat_numeral)

lemma eye_3: "eye 3 = (3, [[1, 0, 0], [0, 1, 0], [0, 0, 1]])"
  by (simp add: eye_def upt_rec)

lemma eye_4: "eye 4 = (4, [[1, 0, 0, 0], [0, 1, 0, 0], [0, 0, 1, 0], [0, 0, 0, 1]])"
  by (simp add: eye_def upt_rec)

lemmas blk = np_block_def hstack_def vstack_def ebind_def zeros_3_1 zeros_1_3 eye_3

lemma upt3': "[0..<3] = [0, Suc 0, 2]"
  by (simp add: upt_rec)

lemma last_nth3: "length xs = 4 \<Longrightarrow> last xs = xs ! 3"
  using last_conv_nth [of xs] by (cases "xs = []") auto

lemma read_calib_txt:
  "read_opencv_calibration calib_fs ''calib.txt'' =
     Inr (Arr0 Float64 1920, Arr0 Float64 1080,
          Arr2 Float64 3 [[1000, 0, 960], [0, 1000, 540], [0, 0, 1]],
          Arr1 Float64 [1 / 10, 5 / 100, 1 / 1000, 2 / 1000])"
  by (simp add: read_opencv_calibration_def calib_fs_def ebind_def reshape_def upt_rec)

section \<open>Homogeneous blocks: the shapes of \<open>build_block_matrix\<close>\<close>

text \<open>
  Claim C9 says that \<open>build_block_matrix\<close> fails with a ValidationError on
  every input that is neither \<open>3 \<times> 3\<close> nor \<open>3 \<times> 1\<close>. On a \<open>2 \<times> 2\<close> array
  the source takes its last branch: it logs an error and returns \<^verbatim>\<open>None\<close>,
  raising nothing.
\<close>

theorem build_block_matrix_other_shape_counterexample:
  "shape (Arr2 Float64 2 [[1, 2], [3, 4]]) = [2, 2] \<and>
   build_block_matrix (Arr2 Float64 2 [[1, 2], [3, 4]]) = Inr None"
  by (simp del: One_nat_def)

text \<open>
  Claim C9, amended: \<open>build_block_matrix\<close> returns the \<open>4 \<times> 4\<close> matrix
  \<open>[[block, 0], [0, 0, 0, 1]]\<close> for every \<open>3 \<times> 3\<close> input and
  \<open>[[I3, v], [0, 0, 0, 1]]\<close> for every \<open>3 \<times> 1\<close> input; for every input of at
  least two dimensions whose second dimension is neither 3 nor 1 it raises
  nothing and returns \<^verbatim>\<open>None\<close>.
\<close>

theorem build_block_matrix_shapes:
  "build_block_matrix (Arr2 dt 3 [[a, b, c], [d, e, f], [g, h, i]]) =
     Inr (Some (Arr2 Float64 4 [[a, b, c, 0], [d, e, f, 0], [g, h, i, 0], [0, 0, 0, 1]])) \<and>
   build_block_matrix (Arr2 dt 1 [[x], [y], [z]]) =
     Inr (Some (Arr2 Float64 4 [[1, 0, 0, x], [0, 1, 0, y], [0, 0, 1, z], [0, 0, 0, 1]])) \<and>
   (shape mat = n # m # rest \<and> m \<noteq> 3 \<and> m \<noteq> 1 \<longrightarrow> build_block_matrix mat = Inr None)"
proof (intro conjI impI)
  show "build_block_matrix (Arr2 dt 3 [[a, b, c], [d, e, f], [g, h, i]]) =
     Inr (Some (Arr2 Float64 4 [[a, b, c, 0], [d, e, f, 0], [g, h, i, 0], [0, 0, 0, 1]]))"
    by (simp add: blk)
  show "build_block_matrix (Arr2 dt 1 [[x], [y], [z]]) =
     Inr (Some (Arr2 Float64 4 [[1, 0, 0, x], [0, 1, 0, y], [0, 0, 1, z], [0, 0, 0, 1]]))"
    by (simp add: blk)
  assume "shape mat = n # m # rest \<and> m \<noteq> 3 \<and> m \<noteq> 1"
  then show "build_block_matrix mat = Inr None"
    by (cases mat) auto
qed

theorem build_block_matrix_shapes_witness:
  "shape (Arr2 Float32 5 [[1, 2, 3, 4, 5]]) = [1, 5] \<and> (5::nat) \<noteq> 3 \<and> (5::nat) \<noteq> 1 \<and>
   build_block_matrix (Arr2 Float32 5 [[1, 2, 3, 4, 5]]) = Inr None \<and>
   build_block_matrix (Arr2 Float32 3 [[1, 2, 3], [4, 5, 6], [7, 8, 9]]) =
     Inr (Some (Arr2 Float64 4 [[1, 2, 3, 0], [4, 5, 6, 0], [7, 8, 9, 0], [0, 0, 0, 1]])) \<and>
   build_block_matrix (Arr2 Float32 1 [[7], [8], [9]]) =
     Inr (Some (Arr2 Float64 4 [[1, 0, 0, 7], [0, 1, 0, 8], [0, 0, 1, 9], [0, 0, 0, 1]]))"
  using build_block_matrix_shapes [where mat = "Arr2 Float32 5 [[1, 2, 3, 4, 5]]" and n = 1 and m = 5
      and rest = "[]" and dt = Float32 and a = 1 and b = 2 and c = 3 and d = 4 and e = 5 and f = 6
      and g = 7 and h = 8 and i = 9 and x = 7 and y = 8 and z = 9]
  by (simp del: One_nat_def)

section \<open>Updating the exterior orientation\<close>

text \<open>
  Claim C2: \<open>update_extrinsics\<close> fails (a failed assertion, the
  specification's ValidationError) for every array that is not of shape
  \<open>4 \<times> 4\<close>, or not of element type float64, or whose last row is not exactly
  \<open>[0, 0, 0, 1]\<close>; a \<open>3 \<times> 3\<close> input, a float32 input and a last row
  \<open>[0, 0, 0, 1e-5]\<close> are rejected; every \<open>4 \<times> 4\<close> float64 array with last
  row \<open>[0, 0, 0, 1]\<close> is accepted and becomes the camera's extrinsics.
\<close>

theorem update_extrinsics_validation:
  "(shape m \<noteq> [4, 4] \<or> dtype_of m \<noteq> Float64 \<or> last (rows_of m) \<noteq> [0, 0, 0, 1]
      \<longrightarrow> update_extrinsics cam m = Inl AssertionError) \<and>
   (shape m = [4, 4] \<and> dtype_of m = Float64 \<and> last (rows_of m) = [0, 0, 0, 1]
      \<longrightarrow> (\<exists>cam'. update_extrinsics cam m = Inr cam' \<and> get_extrinsics cam' = m \<and>
             p_extrinsics cam' = m)) \<and>
   update_extrinsics cam (Arr2 Float64 3 [[1, 0, 0], [0, 1, 0], [0, 0, 1]]) = Inl AssertionError \<and>
   update_extrinsics cam (Arr2 Float32 4 [[1, 0, 0, 0], [0, 1, 0, 0], [0, 0, 1, 0], [0, 0, 0, 1]])
     = Inl AssertionError \<and>
   update_extrinsics cam (Arr2 Float64 4 [[1, 0, 0, 0], [0, 1, 0, 0], [0, 0, 1, 0], [0, 0, 0, 1 / 10 ^ 5]])
     = Inl AssertionError"
proof -
  have l: "last (rows_of m) = row3 m" if "shape m = [4, 4]"
    using that by (cases m) (auto simp: row3_def last_nth3)
  show ?thesis
    using l by (auto simp: update_extrinsics_def get_extrinsics_def row3_def)
qed

theorem update_extrinsics_validation_witness:
  "update_extrinsics blank_camera
      (Arr2 Float64 4 [[0, - 1, 0, 5], [1, 0, 0, 6], [0, 0, 1, 7], [0, 0, 0, 1]])
     = Inr (blank_camera\<lparr>p_extrinsics :=
              Arr2 Float64 4 [[0, - 1, 0, 5], [1, 0, 0, 6], [0, 0, 1, 7], [0, 0, 0, 1]]\<rparr>) \<and>
   update_extrinsics blank_camera
      (Arr2 Float64 4 [[0, - 1, 0, 5], [1, 0, 0, 6], [0, 0, 1, 7], [0, 0, 1, 1]])
     = Inl AssertionError"
  using update_extrinsics_validation
          [of "Arr2 Float64 4 [[0, - 1, 0, 5], [1, 0, 0, 6], [0, 0, 1, 7], [0, 0, 0, 1]]" blank_camera]
        update_extrinsics_validation
          [of "Arr2 Float64 4 [[0, - 1, 0, 5], [1, 0, 0, 6], [0, 0, 1, 7], [0, 0, 1, 1]]" blank_camera]
  by (simp add: update_extrinsics_def row3_def)

section \<open>Rotation and translation to extrinsics\<close>

text \<open>
  Claim C8 says that \<open>Rt_to_extrinsics\<close> accepts \<open>t\<close> as a vector of length
  3, as a \<open>1 \<times> 3\<close> row and as a \<open>3 \<times> 1\<close> column. The guard of the source
  names the \<open>1 \<times> 3\<close> row, but the assertion behind it compares
  \<^verbatim>\<open>t.shape[0]\<close>, which is 1 for a row, with 3: the row is rejected. The
  vector and the column are accepted; a \<open>3 \<times> 3\<close> array in the place of \<open>t\<close>
  (nine elements) is accepted as well.
\<close>

theorem Rt_to_extrinsics_row_rejected:
  "shape (Arr2 Float64 3 [[1, 2, 3]]) = [1, 3] \<and>
   Rt_to_extrinsics (Arr2 Float64 3 [[1, 0, 0], [0, 1, 0], [0, 0, 1]]) (Arr2 Float64 3 [[1, 2, 3]])
     = Inl AssertionError \<and>
   Rt_to_extrinsics (Arr2 Float64 3 [[1, 0, 0], [0, 1, 0], [0, 0, 1]]) (Arr1 Float64 [1, 2, 3])
     = Inr (Arr2 Float64 4 [[1, 0, 0, 1], [0, 1, 0, 2], [0, 0, 1, 3], [0, 0, 0, 1]]) \<and>
   Rt_to_extrinsics (Arr2 Float64 3 [[1, 0, 0], [0, 1, 0], [0, 0, 1]]) (Arr2 Float64 1 [[1], [2], [3]])
     = Inr (Arr2 Float64 4 [[1, 0, 0, 1], [0, 1, 0, 2], [0, 0, 1, 3], [0, 0, 0, 1]]) \<and>
   Rt_to_extrinsics (Arr2 Float64 3 [[1, 0, 0], [0, 1, 0], [0, 0, 1]])
       (Arr2 Float64 3 [[1, 2, 3], [4, 5, 6], [7, 8, 9]])
     = Inr (Arr2 Float64 4 [[1, 2, 3, 0], [4, 5, 6, 0], [7, 8, 9, 0], [0, 0, 0, 1]])"
  by (simp add: Rt_to_extrinsics_def blk reshape_def promote_def dotprod_def upt_rec)

section \<open>The calibration reader\<close>

text \<open>
  From eleven values on the reader behaves as specified: 15, 16 and 19 values
  are accepted, with the nine values after the first two as the rows of
  \<open>K\<close> and the rest as the distortion vector, and every other number of
  values raises the ValueError of the grammar.
\<close>

lemma loadtxt_long: "2 \<le> length line \<Longrightarrow> loadtxt line = Arr1 Float64 line"
  by (cases line rule: loadtxt.cases) auto

lemma read_opencv_calibration_long_line:
  assumes f: "fs path = Some line" and n: "11 \<le> length line"
  shows "read_opencv_calibration fs path =
     (if length line = 15 \<or> length line = 16 \<or> length line = 19
      then Inr (Arr0 Float64 (line ! 0), Arr0 Float64 (line ! 1),
                Arr2 Float64 3 [take 3 (drop 2 line), take 3 (drop 5 line), take 3 (drop 8 line)],
                Arr1 Float64 (drop 11 line))
      else Inl (ValueError grammar_msg))"
proof -
  have l: "loadtxt line = Arr1 Float64 line"
    using n by (simp add: loadtxt_long)
  have K: "reshape 3 3 (Arr1 Float64 (drop 2 (take 11 line)))
    = Inr (Arr2 Float64 3 [take 3 (drop 2 line), take 3 (drop 5 line), take 3 (drop 8 line)])"
  proof -
    have len: "length (drop 2 (take 11 line)) = 3 * 3"
      using n by simp
    have r: "take 3 (drop (0 * 3) (drop 2 (take 11 line))) = take 3 (drop 2 line)"
      "take 3 (drop (Suc 0 * 3) (drop 2 (take 11 line))) = take 3 (drop 5 line)"
      "take 3 (drop (2 * 3) (drop 2 (take 11 line))) = take 3 (drop 8 line)"
      by (simp_all add: drop_take)
    show ?thesis
      unfolding reshape_def ravel.simps len upt3' by (simp only: r list.map dtype_of.simps) simp
  qed
  show ?thesis
    using n by (auto simp: read_opencv_calibration_def f l K ebind_simps)
qed

text \<open>
  Claim C4 says that \<open>read_opencv_calibration\<close> raises a ValueError that
  describes the expected grammar for every number of values other than 15, 16
  and 19. The source indexes and reshapes before it looks at the length: a
  line of one value (or none) raises IndexError at \<^verbatim>\<open>data[0]\<close>, and a line of
  two to ten values raises the ValueError of \<^verbatim>\<open>reshape\<close>. The ValueError of the
  grammar is reached from eleven values on, as for fourteen.
\<close>

theorem read_opencv_calibration_short_line:
  "read_opencv_calibration calib_fs ''single.txt'' = Inl IndexError \<and>
   read_opencv_calibration calib_fs ''empty.txt'' = Inl IndexError \<and>
   read_opencv_calibration calib_fs ''short.txt'' = Inl (ValueError reshape_msg) \<and>
   reshape_msg \<noteq> grammar_msg \<and>
   read_opencv_calibration calib_fs ''fourteen.txt'' = Inl (ValueError grammar_msg)"
  by (simp add: read_opencv_calibration_def calib_fs_def ebind_def reshape_def reshape_msg_def grammar_msg_def)

section \<open>The calibration file and the getters\<close>

text \<open>
  Claim C10 says that after \<open>read_calibration_from_file\<close> the getters
  \<open>width\<close>, \<open>height\<close>, \<open>K\<close> and \<open>dist\<close> return what was read. The source
  assigns the width and the height to \<^verbatim>\<open>self._width\<close> and \<^verbatim>\<open>self._height\<close>,
  while the getters read \<^verbatim>\<open>self._w\<close> and \<^verbatim>\<open>self._h\<close>: for a camera built
  with width 640 and height 480, the getters still return 640 and 480 after
  the file with 1920 and 1080 was read. \<open>K\<close> and \<open>dist\<close> are those of the
  file.
\<close>

theorem read_calibration_from_file_keeps_width:
  "(case Camera_init calib_fs (Some (Arr0 Int64 640)) (Some (Arr0 Int64 480)) None None None None None None of
      Inl e \<Rightarrow> False
    | Inr cam \<Rightarrow>
       (case read_calibration_from_file calib_fs cam ''calib.txt'' of
          Inl e \<Rightarrow> False
        | Inr cam' \<Rightarrow>
            get_width cam' = Some (Arr0 Int64 640) \<and> get_height cam' = Some (Arr0 Int64 480) \<and>
            get_K cam' = Some (Arr2 Float64 3 [[1000, 0, 960], [0, 1000, 540], [0, 0, 1]]) \<and>
            get_dist cam' = Some (Arr1 Float64 [1 / 10, 5 / 100, 1 / 1000, 2 / 1000]) \<and>
            p_width cam' = Some (Arr0 Float64 1920) \<and> p_height cam' = Some (Arr0 Float64 1080)))"
  by (simp add: Camera_init_def read_calibration_from_file_def read_calib_txt reset_EO_def ebind_def
      get_width_def get_height_def get_K_def get_dist_def)

section \<open>The invariant of the stored extrinsics\<close>

text \<open>
  What holds of the invariant: every construction without an explicit
  \<open>extrinsics\<close> argument (by default, or from \<open>R\<close> and \<open>t\<close>) establishes it,
  and every operation keeps it.
\<close>

lemma len3: "length xs = 3 \<Longrightarrow> \<exists>a b c. xs = [a, b, c]"
  by (auto simp: length_Suc_conv eval_nat_numeral)

lemma build_block_matrix_Some:
  assumes "build_block_matrix a = Inr (Some b)"
  shows "\<exists>r0 r1 r2. b = Arr2 Float64 4 [r0, r1, r2, [0, 0, 0, 1]]"
proof (cases a)
  case (Arr2 dt m rows)
  show ?thesis
  proof (cases "length rows = 3")
    case True
    then obtain x y z where "rows = [x, y, z]" using len3 by blast
    with assms Arr2 show ?thesis
      by (auto simp: blk split: if_splits)
  next
    case False
    with assms Arr2 show ?thesis
      by (auto simp: blk split: if_splits)
  qed
qed (use assms in auto)

lemma matmul_blocks_homogeneous:
  "matmul (Arr2 Float64 4 [r0, r1, r2, [0, 0, 0, 1]]) (Arr2 Float64 4 [q0, q1, q2, [0, 0, 0, 1]]) = Inr e
   \<Longrightarrow> homogeneous44 e"
  by (auto simp: homogeneous44_def dotprod_def upt_rec)

lemma Rt_to_extrinsics_homogeneous:
  assumes "Rt_to_extrinsics R t = Inr e"
  shows "homogeneous44 e"
proof -
  from assms obtain t' Rb tb where
    R: "build_block_matrix R = Inr Rb" and t: "build_block_matrix t' = Inr tb"
    and m: "matmul_opt tb Rb = Inr e"
    unfolding Rt_to_extrinsics_def by (auto dest!: ebind_Inr)
  from m obtain Rb' tb' where s: "Rb = Some Rb'" "tb = Some tb'" and m': "matmul tb' Rb' = Inr e"
    by (cases tb; cases Rb) auto
  from build_block_matrix_Some [OF R [unfolded s]] build_block_matrix_Some [OF t [unfolded s]] m'
  show ?thesis
    using matmul_blocks_homogeneous by blast
qed

lemma Camera_init_homogeneous:
  assumes "Camera_init fs width height K dist' R t None calib_path = Inr cam"
  shows "homogeneous44 (get_extrinsics cam)"
proof -
  have eye: "homogeneous44 (Arr2 Float64 (fst (eye 4)) (snd (eye 4)))"
    by (simp add: eye_4 homogeneous44_def)
  have rd: "p_extrinsics c' = p_extrinsics c" if "read_calibration_from_file fs c path = Inr c'" for c c' path
    using that by (auto simp: read_calibration_from_file_def dest!: ebind_Inr)
  from assms show ?thesis
    unfolding Camera_init_def get_extrinsics_def
    by (auto simp: Let_def reset_EO_def eye dest!: ebind_Inr rd Rt_to_extrinsics_homogeneous
        split: option.splits)
qed

lemma update_extrinsics_ok:
  assumes "update_extrinsics cam m = Inr cam'"
  shows "homogeneous44 (get_extrinsics cam')"
proof -
  from assms have sh: "shape m = [4, 4]" and r: "row3 m = [0, 0, 0, 1]" and c: "p_extrinsics cam' = m"
    by (auto simp: update_extrinsics_def split: if_splits)
  from sh have "last (rows_of m) = row3 m"
    by (cases m) (auto simp: row3_def last_nth3)
  with sh r c show ?thesis
    by (simp add: homogeneous44_def get_extrinsics_def)
qed

lemma operations_keep_homogeneous:
  "homogeneous44 (get_extrinsics (reset_EO cam))"
  "homogeneous44 (get_extrinsics cam) \<Longrightarrow> homogeneous44 (get_extrinsics (update_K cam k))"
  "homogeneous44 (get_extrinsics cam) \<Longrightarrow> homogeneous44 (get_extrinsics (update_dist cam d))"
  "update_extrinsics cam m = Inr cam' \<Longrightarrow> homogeneous44 (get_extrinsics cam')"
  "read_calibration_from_file fs cam path = Inr cam' \<Longrightarrow> homogeneous44 (get_extrinsics cam)
     \<Longrightarrow> homogeneous44 (get_extrinsics cam')"
proof -
  show "homogeneous44 (get_extrinsics (reset_EO cam))"
    by (simp add: reset_EO_def get_extrinsics_def eye_4 homogeneous44_def)
  show "homogeneous44 (get_extrinsics cam) \<Longrightarrow> homogeneous44 (get_extrinsics (update_K cam k))"
    by (simp add: update_K_def get_extrinsics_def)
  show "homogeneous44 (get_extrinsics cam) \<Longrightarrow> homogeneous44 (get_extrinsics (update_dist cam d))"
    by (simp add: update_dist_def get_extrinsics_def)
  show "update_extrinsics cam m = Inr cam' \<Longrightarrow> homogeneous44 (get_extrinsics cam')"
    using update_extrinsics_ok [of cam m cam'] by simp
  show "read_calibration_from_file fs cam path = Inr cam' \<Longrightarrow> homogeneous44 (get_extrinsics cam)
     \<Longrightarrow> homogeneous44 (get_extrinsics cam')"
    by (auto simp: read_calibration_from_file_def get_extrinsics_def dest!: ebind_Inr)
qed

text \<open>
  Claim C5 says that the stored extrinsics are \<open>4 \<times> 4\<close> with last row
  \<open>[0, 0, 0, 1]\<close> after every construction. The constructor stores an
  explicit \<open>extrinsics\<close> argument as it is, without the checks of
  \<open>update_extrinsics\<close>: a \<open>3 \<times> 3\<close> array, which \<open>update_extrinsics\<close>
  rejects, becomes the camera's extrinsics, and so does a \<open>4 \<times> 4\<close> array with
  last row \<open>[0, 0, 0, 2]\<close>.
\<close>

theorem Camera_init_extrinsics_unchecked:
  "(case Camera_init calib_fs None None None None None None
           (Some (Arr2 Float64 3 [[0, 0, 0], [0, 0, 0], [0, 0, 0]])) None of
      Inl e \<Rightarrow> False
    | Inr cam \<Rightarrow> get_extrinsics cam = Arr2 Float64 3 [[0, 0, 0], [0, 0, 0], [0, 0, 0]] \<and>
        shape (get_extrinsics cam) = [3, 3] \<and>
        update_extrinsics cam (Arr2 Float64 3 [[0, 0, 0], [0, 0, 0], [0, 0, 0]]) = Inl AssertionError) \<and>
   (case Camera_init calib_fs None None None None None None
           (Some (Arr2 Float64 4 [[1, 0, 0, 0], [0, 1, 0, 0], [0, 0, 1, 0], [0, 0, 0, 2]])) None of
      Inl e \<Rightarrow> False
    | Inr cam \<Rightarrow> last (rows_of (get_extrinsics cam)) = [0, 0, 0, 2])"
  by (simp add: Camera_init_def reset_EO_def ebind_def get_extrinsics_def update_extrinsics_def)

section \<open>The distortion vector of the Agisoft reader\<close>

text \<open>
  Claim C6: when the file parses, its fourth top-level child has
  \<open>type_id\<close> \<open>opencv-matrix\<close>, and width, height and \<open>K\<close> are read, then
  for every distortion vector \<open>dist_\<close> read from the file (of at least four
  values, as the indices need) the result holds \<open>k1 = dist_[0]\<close>,
  \<open>k2 = dist_[1]\<close>, \<open>p1 = dist_[3]\<close>, \<open>p2 = dist_[2]\<close>, then \<open>k3 = dist_[4]\<close>
  exactly when the length is 5 or 6 and \<open>k4 = dist_[5]\<close> exactly when it is
  6, and \<^verbatim>\<open>None\<close> in their places otherwise.
\<close>

theorem read_agisoft_xml_opencv_remap:
  assumes "parse path = Inr tree"
    and "child tree 3 = Inr root3"
    and "map_of (el_attrib root3) ''type_id'' = Some ''opencv-matrix''"
    and "ebind (child tree 1) (text_int py_int) = Inr w"
    and "ebind (child tree 2) (text_int py_int) = Inr h"
    and "ebind (ebind (child root3 3) (text_floats py_float)) (\<lambda>ks. reshape 3 3 (Arr1 Float64 ks)) = Inr K"
    and "ebind (ebind (child tree 4) (\<lambda>root4. child root4 3)) (text_floats py_float) = Inr dist_raw"
  shows "read_agisoft_xml_opencv parse py_int py_float path =
     (if length dist_raw < 4 then Inl IndexError
      else Inr (w, h, K,
        [Some (dist_raw ! 0), Some (dist_raw ! 1), Some (dist_raw ! 3), Some (dist_raw ! 2),
         if length dist_raw = 5 \<or> length dist_raw = 6 then Some (dist_raw ! 4) else None,
         if length dist_raw = 6 then Some (dist_raw ! 5) else None]))"
proof -
  from assms(2) have c0: "child tree 0 = Inr (el_children tree ! 0)"
    by (auto simp: child_def split: if_splits)
  have head: "read_agisoft_xml_opencv parse py_int py_float path =
     ebind (item dist_raw 0) (\<lambda>k1.
     ebind (item dist_raw 1) (\<lambda>k2.
     ebind (item dist_raw 3) (\<lambda>p1.
     ebind (item dist_raw 2) (\<lambda>p2.
     ebind (if length dist_raw = 5 then ebind (item dist_raw 4) (\<lambda>k3. Inr (Some k3, None))
            else if length dist_raw = 6 then
              ebind (item dist_raw 4) (\<lambda>k3. ebind (item dist_raw 5) (\<lambda>k4. Inr (Some k3, Some k4)))
            else Inr (None, None)) (\<lambda>(k3, k4).
     Inr (w, h, K, [Some k1, Some k2, Some p1, Some p2, k3, k4]))))))"
    unfolding read_agisoft_xml_opencv_def
    by (simp add: assms c0 dict_get_def ebind_simps del: One_nat_def)
  show ?thesis
    unfolding head by (auto simp: ebind_simps item_def)
qed

theorem read_agisoft_xml_opencv_remap_witness:
  "read_agisoft_xml_opencv (\<lambda>p. Inr agisoft_root) demo_int demo_float ''camera.xml'' =
     Inr (1920, 1080, Arr2 Float64 3 [[1000, 0, 960], [0, 1000, 540], [0, 0, 1]],
          [Some 1, Some 2, Some 4, Some 3, Some 5, None])"
proof -
  have c: "child agisoft_root 3 = Inr (matrix_node ''1000 0 960 0 1000 540 0 0 1'')"
    by (simp add: child_def agisoft_root_def)
  have a: "map_of (el_attrib (matrix_node ''1000 0 960 0 1000 540 0 0 1'')) ''type_id'' = Some ''opencv-matrix''"
    by (simp add: matrix_node_def)
  have w: "ebind (child agisoft_root 1) (text_int demo_int) = Inr 1920"
    by (simp add: child_def agisoft_root_def ebind_simps text_int_def demo_int_def)
  have h: "ebind (child agisoft_root 2) (text_int demo_int) = Inr 1080"
    by (simp add: child_def agisoft_root_def ebind_simps text_int_def demo_int_def)
  have k: "ebind (ebind (child (matrix_node ''1000 0 960 0 1000 540 0 0 1'') 3) (text_floats demo_float))
             (\<lambda>ks. reshape 3 3 (Arr1 Float64 ks))
           = Inr (Arr2 Float64 3 [[1000, 0, 960], [0, 1000, 540], [0, 0, 1]])"
    by (simp add: child_def matrix_node_def ebind_simps text_floats_def split_K demo_float_def
        reshape_def upt_rec)
  have d: "ebind (ebind (child agisoft_root 4) (\<lambda>root4. child root4 3)) (text_floats demo_float)
           = Inr [1, 2, 3, 4, 5]"
    by (simp add: child_def agisoft_root_def matrix_node_def ebind_simps text_floats_def split_d
        demo_float_def)
  from read_agisoft_xml_opencv_remap [of "\<lambda>p. Inr agisoft_root" "''camera.xml''", OF refl c a w h k d]
  show ?thesis by simp
qed


section \<open>Exceptions of the EXIF reader\<close>

text \<open>
  Claim C7 says that \<open>get_intrinsics_from_exif\<close> logs and returns no result
  when an EXIF field is missing or the sensor lookup raises LookupError. The
  three handlers of the source catch OSError only: the KeyError of a missing
  field and the LookupError of the table (no row, or two rows) reach the
  caller. What is caught is the OSError of a missing table file.
\<close>

theorem get_intrinsics_from_exif_raises:
  "get_intrinsics_from_exif (Some sensor_csv) Map.empty = Inl (KeyError ''EXIF FocalLength'') \<and>
   get_intrinsics_from_exif (Some sensor_csv) (nikon_exif(''Image Make'' := None))
     = Inl (KeyError ''Image Make'') \<and>
   get_intrinsics_from_exif (Some sensor_csv) (nikon_exif(''EXIF ExifImageWidth'' := None))
     = Inl (KeyError ''EXIF ExifImageWidth'') \<and>
   get_intrinsics_from_exif (Some []) nikon_exif = Inl LookupError \<and>
   get_intrinsics_from_exif (Some (sensor_csv @ sensor_csv)) nikon_exif = Inl LookupError \<and>
   get_intrinsics_from_exif None nikon_exif = Inr None \<and>
   get_intrinsics_from_exif (Some sensor_csv) nikon_exif =
     Inr (Some (7360, 4912,
        Arr2 Float64 3 [[7360 * 35 / (359 / 10), 0, 3680], [0, 7360 * 35 / (359 / 10), 2456], [0, 0, 1]],
        Arr1 Float64 [0, 0, 0, 0, 0]))"
  by (simp add: get_intrinsics_from_exif_def try_except_OSError_def dict_get_def ebind_def nikon_exif_def
     first_item_def SensorWidthDatabase_def lookup_def split_nikon lower_nikon sensor_csv_def
     eval_nat_numeral Let_def)

section \<open>Factorisation of the projection matrix\<close>

lemma det3: "det [[a, b, c], [d, e, f], [g, h, i]] = a * (e * i - f * h) - b * (d * i - f * g) + c * (d * h - e * g)"
  by (simp add: upt_rec del_col_def algebra_simps)

lemma det2: "det [[a, b], [c, d]] = a * d - b * c"
  by (simp add: upt_rec del_col_def algebra_simps)

lemma minor3:
  fixes A :: "real list list"
  assumes "A = [[a, b, c], [d, e, f], [g, h, i]]"
  shows "minor 0 0 A = [[e, f], [h, i]]" "minor 0 (Suc 0) A = [[d, f], [g, i]]"
    "minor 0 2 A = [[d, e], [g, h]]"
    "minor (Suc 0) 0 A = [[b, c], [h, i]]" "minor (Suc 0) (Suc 0) A = [[a, c], [g, i]]"
    "minor (Suc 0) 2 A = [[a, b], [g, h]]"
    "minor 2 0 A = [[b, c], [e, f]]" "minor 2 (Suc 0) A = [[a, c], [d, f]]"
    "minor 2 2 A = [[a, b], [d, e]]"
  by (simp_all add: assms minor_def del_col_def eval_nat_numeral)

lemma inv_upper:
  assumes "a \<noteq> 0" "e \<noteq> 0" "i \<noteq> 0"
  shows "linalg_inv (Arr2 dt 3 [[a, b, c], [0, e, f], [0, 0, i]]) =
     Inr (Arr2 (inv_dtype dt) 3
       [[1 / a, - b / (a * e), (b * f - c * e) / (a * e * i)],
        [0, 1 / e, - f / (e * i)],
        [0, 0, 1 / i]])"
  using assms
  by (simp add: det3 det2 minor3 [OF refl] upt3' field_simps del: det.simps)


lemma factor_P_explicit:
  assumes P: "get_P cam = Inr Pm"
    and M: "slice_cols 0 3 Pm = Inr M"
    and p3: "column 3 Pm = Inr (Arr1 dp [p0, p1, p2])"
    and rq: "rq M = Inr (Arr2 dk 3 [[k00, k01, k02], [0, k11, k12], [0, 0, k22]],
                         Arr2 dr 3 [[r00, r01, r02], [r10, r11, r12], [r20, r21, r22]])"
    and nz: "k00 \<noteq> 0" "k11 \<noteq> 0" "k22 \<noteq> 0"
    and s: "s0 = sgn k00" "s1 = (if sgn k00 * sgn k11 * sgn k22 < 0 then - sgn k11 else sgn k11)"
      "s2 = sgn k22"
  shows "factor_P rq cam = Inr
     (Arr2 dk 3 [[k00 * s0, k01 * s1, k02 * s2], [0, k11 * s1, k12 * s2], [0, 0, k22 * s2]],
      Arr2 (promote dk dr) 3 [[s0 * r00, s0 * r01, s0 * r02],
                 [s1 * r10, s1 * r11, s1 * r12],
                 [s2 * r20, s2 * r21, s2 * r22]],
      Arr2 (promote (inv_dtype dk) dp) 1
         [[1 / (k00 * s0) * p0 + (- (k01 * s1) / (k00 * s0 * (k11 * s1)) * p1 +
            ((k01 * s1 * (k12 * s2) - k02 * s2 * (k11 * s1)) / (k00 * s0 * (k11 * s1) * (k22 * s2)) * p2 + 0))],
          [0 * p0 + (1 / (k11 * s1) * p1 + (- (k12 * s2) / (k11 * s1 * (k22 * s2)) * p2 + 0))],
          [0 * p0 + (0 * p1 + (1 / (k22 * s2) * p2 + 0))]])"
proof -
  let ?Kin = "Arr2 dk 3 [[k00, k01, k02], [0, k11, k12], [0, 0, k22]]"
  let ?Rin = "Arr2 dr 3 [[r00, r01, r02], [r10, r11, r12], [r20, r21, r22]]"
  let ?Tsgn = "Arr2 dk 3 [[sgn k00, 0, 0], [0, sgn k11, 0], [0, 0, sgn k22]]"
  let ?T = "Arr2 dk 3 [[s0, 0, 0], [0, s1, 0], [0, 0, s2]]"
  let ?K = "Arr2 dk 3 [[k00 * s0, k01 * s1, k02 * s2], [0, k11 * s1, k12 * s2], [0, 0, k22 * s2]]"
  have s1nz: "s1 \<noteq> 0" and s0nz: "s0 \<noteq> 0" and s2nz: "s2 \<noteq> 0"
    using nz by (auto simp: s sgn_if)
  have d: "np_diag ?Kin = Inr (Arr1 dk [k00, k11, k22])"
    by (simp add: upt3')
  have T0: "np_diag (np_sign (Arr1 dk [k00, k11, k22])) = Inr ?Tsgn"
    by (simp add: upt3')
  have dT: "linalg_det ?Tsgn = Inr (sgn k00 * sgn k11 * sgn k22)"
    by (simp add: det3 del: det.simps)
  have T: "(if sgn k00 * sgn k11 * sgn k22 < 0 then imul11 ?Tsgn else Inr ?Tsgn) = Inr ?T"
    by (simp add: s)
  have K: "np_dot ?Kin ?T = Inr ?K"
    by (simp add: upt3' dotprod_def promote_def)
  have R: "np_dot ?T ?Rin = Inr (Arr2 (promote dk dr) 3 [[s0 * r00, s0 * r01, s0 * r02],
                 [s1 * r10, s1 * r11, s1 * r12], [s2 * r20, s2 * r21, s2 * r22]])"
    by (simp add: upt3' dotprod_def)
  have I: "linalg_inv ?K = Inr (Arr2 (inv_dtype dk) 3
       [[1 / (k00 * s0), - (k01 * s1) / (k00 * s0 * (k11 * s1)),
         (k01 * s1 * (k12 * s2) - k02 * s2 * (k11 * s1)) / (k00 * s0 * (k11 * s1) * (k22 * s2))],
        [0, 1 / (k11 * s1), - (k12 * s2) / (k11 * s1 * (k22 * s2))],
        [0, 0, 1 / (k22 * s2)]])"
    using inv_upper [where a = "k00 * s0" and e = "k11 * s1" and i = "k22 * s2" and dt = dk
        and b = "k01 * s1" and c = "k02 * s2" and f = "k12 * s2"] nz s0nz s1nz s2nz
    by simp
  show ?thesis
    unfolding factor_P_def
    by (simp only: P M rq p3 ebind_simps d T0 dT T K R I prod.case)
       (simp add: dotprod_def reshape_def upt3' ebind_simps)
qed


lemma spec_P: "get_P spec_camera = Inr (Arr2 Float64 4 [[1000, 0, 960, 4800], [0, 1000, 540, 2700], [0, 0, 1, 5]])"
  by (simp add: get_P_def get_R_def get_t_def get_K_def spec_camera_def ebind_simps broadcast_rows_def
      dotprod_def promote_def upt_rec)

lemma spec_M: "slice_cols 0 3 (Arr2 Float64 4 [[1000, 0, 960, 4800], [0, 1000, 540, 2700], [0, 0, 1, 5]])
   = Inr (Arr2 Float64 3 [[1000, 0, 960], [0, 1000, 540], [0, 0, 1]])"
  by simp

lemma spec_p3: "column 3 (Arr2 Float64 4 [[1000, 0, 960, 4800], [0, 1000, 540, 2700], [0, 0, 1, 5]])
   = Inr (Arr1 Float64 [4800, 2700, 5])"
  by simp

lemma rq_upper_spec: "rq_upper (Arr2 Float64 3 [[1000, 0, 960], [0, 1000, 540], [0, 0, 1]])
   = Inr (Arr2 Float64 3 [[1000, 0, 960], [0, 1000, 540], [0, 0, 1]],
          Arr2 Float64 3 [[1, 0, 0], [0, 1, 0], [0, 0, 1]])"
  by (simp add: rq_upper_def)

lemma factor_P_spec_camera:
  "factor_P rq_upper spec_camera
     = Inr (Arr2 Float64 3 [[1000, 0, 960], [0, 1000, 540], [0, 0, 1]],
            Arr2 Float64 3 [[1, 0, 0], [0, 1, 0], [0, 0, 1]],
            Arr2 Float64 1 [[0], [0], [5]])"
  using factor_P_explicit [where rq = rq_upper, OF spec_P spec_M spec_p3 rq_upper_spec _ _ _ refl refl refl]
  by (simp add: promote_def inv_dtype_def)

lemma turned_P: "get_P turned_camera = Inr (Arr2 Float64 4 [[0, - 1000, 960, 4800], [1000, 0, 540, 2700], [0, 0, 1, 5]])"
  by (simp add: get_P_def get_R_def get_t_def get_K_def turned_camera_def ebind_simps broadcast_rows_def
      dotprod_def promote_def upt_rec)

lemma turned_M: "slice_cols 0 3 (Arr2 Float64 4 [[0, - 1000, 960, 4800], [1000, 0, 540, 2700], [0, 0, 1, 5]])
   = Inr (Arr2 Float64 3 [[0, - 1000, 960], [1000, 0, 540], [0, 0, 1]])"
  by simp

lemma turned_p3: "column 3 (Arr2 Float64 4 [[0, - 1000, 960, 4800], [1000, 0, 540, 2700], [0, 0, 1, 5]])
   = Inr (Arr1 Float64 [4800, 2700, 5])"
  by simp

lemma rq_turned_spec: "rq_turned (Arr2 Float64 3 [[0, - 1000, 960], [1000, 0, 540], [0, 0, 1]])
   = Inr (Arr2 Float64 3 [[1000, 0, 960], [0, - 1000, 540], [0, 0, 1]],
          Arr2 Float64 3 [[0, - 1, 0], [- 1, 0, 0], [0, 0, 1]])"
  by (simp add: rq_turned_def)

lemma factor_P_turned:
  "factor_P rq_turned turned_camera
     = Inr (Arr2 Float64 3 [[1000, 0, 960], [0, - 1000, 540], [0, 0, 1]],
            Arr2 Float64 3 [[0, - 1, 0], [- 1, 0, 0], [0, 0, 1]],
            Arr2 Float64 1 [[0], [0], [5]])"
  using factor_P_explicit [where rq = rq_turned, OF turned_P turned_M turned_p3 rq_turned_spec _ _ _ refl refl refl]
  by (simp add: promote_def inv_dtype_def)

text \<open>
  Claim C3 says that \<open>factor_P\<close> returns \<open>K = K0 T\<close> with a positive
  diagonal and a proper rotation \<open>R = T R0\<close>. For the camera turned by 90
  degrees about its optical axis, the RQ factors of \<open>P[:, :3]\<close> are an upper
  triangular \<open>K0\<close> with diagonal \<open>(1000, -1000, 1)\<close> and an orthonormal
  \<open>R0\<close> of determinant \<open>-1\<close>. The sign matrix \<open>diag(1, -1, 1)\<close> has determinant
  \<open>-1\<close>, so the source negates \<open>T[1, 1]\<close>, which makes \<open>T\<close> the identity: the
  result keeps \<open>K[1, 1] = -1000\<close>, against the source's own comment (make the
  diagonal of \<open>K\<close> positive), and \<open>R = R0\<close> is a reflection, not a rotation.
  For the camera of the specification's example, where \<open>P[:, :3]\<close> is upper
  triangular, \<open>K\<close> and \<open>R = I\<close> are recovered.
\<close>

theorem factor_P_turned_camera:
  "Camera_init calib_fs None None (Some (Arr2 Float64 3 [[1000, 0, 960], [0, 1000, 540], [0, 0, 1]])) None
       (Some (Arr2 Float64 3 [[0, - 1, 0], [1, 0, 0], [0, 0, 1]])) (Some (Arr1 Float64 [0, 0, 5]))
       None None
     = Inr turned_camera \<and>
   get_P turned_camera
     = Inr (Arr2 Float64 4 [[0, - 1000, 960, 4800], [1000, 0, 540, 2700], [0, 0, 1, 5]]) \<and>
   rq_turned (Arr2 Float64 3 [[0, - 1000, 960], [1000, 0, 540], [0, 0, 1]])
     = Inr (Arr2 Float64 3 [[1000, 0, 960], [0, - 1000, 540], [0, 0, 1]],
            Arr2 Float64 3 [[0, - 1, 0], [- 1, 0, 0], [0, 0, 1]]) \<and>
   matmul (Arr2 Float64 3 [[1000, 0, 960], [0, - 1000, 540], [0, 0, 1]])
          (Arr2 Float64 3 [[0, - 1, 0], [- 1, 0, 0], [0, 0, 1]])
     = Inr (Arr2 Float64 3 [[0, - 1000, 960], [1000, 0, 540], [0, 0, 1]]) \<and>
   orthonormal (Arr2 Float64 3 [[0, - 1, 0], [- 1, 0, 0], [0, 0, 1]]) \<and>
   (case factor_P rq_turned turned_camera of
      Inl e \<Rightarrow> False
    | Inr (K, R, t) \<Rightarrow>
        K = Arr2 Float64 3 [[1000, 0, 960], [0, - 1000, 540], [0, 0, 1]] \<and>
        rows_of K ! 1 ! 1 < 0 \<and>
        R = Arr2 Float64 3 [[0, - 1, 0], [- 1, 0, 0], [0, 0, 1]] \<and>
        det (rows_of R) = - 1) \<and>
   (case factor_P rq_upper spec_camera of
      Inl e \<Rightarrow> False
    | Inr (K, R, t) \<Rightarrow>
        K = Arr2 Float64 3 [[1000, 0, 960], [0, 1000, 540], [0, 0, 1]] \<and>
        R = Arr2 Float64 3 [[1, 0, 0], [0, 1, 0], [0, 0, 1]] \<and>
        det (rows_of R) = 1)"
proof -
  have c: "Camera_init calib_fs None None (Some (Arr2 Float64 3 [[1000, 0, 960], [0, 1000, 540], [0, 0, 1]])) None
       (Some (Arr2 Float64 3 [[0, - 1, 0], [1, 0, 0], [0, 0, 1]])) (Some (Arr1 Float64 [0, 0, 5]))
       None None
     = Inr turned_camera"
    by (simp add: Camera_init_def reset_EO_def Rt_to_extrinsics_def turned_camera_def blk reshape_def
        promote_def dotprod_def upt_rec)
  show ?thesis
    by (simp add: c turned_P rq_turned_spec factor_P_turned factor_P_spec_camera det3 orthonormal_def
        dotprod_def promote_def upt3' eye_3 del: det.simps)
qed

end
